theory Spec2Isabelle
  imports Main "HOL-Library.AList"
begin

section \<open>The IMF report question answering pipeline (imf_rag_system.py)\<close>

text \<open>
  The program is a class \<open>IMF_RAG_System\<close> with four methods and a \<open>main\<close> function.
  The object holds the paths, the vector store (\<open>None\<close> until an index is built or
  loaded), the QA chain (\<open>None\<close> until \<open>setup_qa_chain\<close> has run) and the language
  model client. Each method is a function that takes the object and returns it updated;
  a raised exception is a value, and the object a raising method leaves behind is
  returned next to it. Text is a list of characters whose code points are below 256.
  Console output is not part of the model, except the lines of the interactive loop of
  \<open>main\<close>. The script \<open>simple_example.py\<close> calls the same methods in the same order
  as \<open>main\<close> and is not modelled apart.
\<close>

subsection \<open>Exceptions\<close>

text \<open>A raised exception: the name of its class and its message.\<close>

datatype error = Raise (exc_class: string) (exc_msg: string)

text \<open>
  \<open>fails_with cls r\<close>: the call whose result is \<open>r\<close> raised an exception whose class
  is named \<open>cls\<close>. This is how a typed error of the specification's taxonomy
  (\<open>InvalidState\<close>, \<open>IndexNotFound\<close>, ...) is recognised.
\<close>

definition fails_with :: "string \<Rightarrow> error option \<Rightarrow> bool" where
  "fails_with cls r = (case r of None \<Rightarrow> False | Some e \<Rightarrow> exc_class e = cls)"

fun raised :: "error + 'a \<Rightarrow> error option" where
  "raised (Inl e) = Some e"
| "raised (Inr _) = None"

text \<open>
  \<open>except Exception\<close> catches an exception whose class derives from \<open>Exception\<close>.
  The classes that derive from \<open>BaseException\<close> only are not caught.
\<close>

definition is_exception :: "error \<Rightarrow> bool" where
  "is_exception e =
     (exc_class e \<notin> set [''BaseException'', ''KeyboardInterrupt'', ''SystemExit'',
                          ''GeneratorExit'', ''CancelledError''])"

text \<open>A name between single quotes, as Python's \<open>repr\<close> shows it in a message.\<close>

definition quoted :: "string \<Rightarrow> string" where
  "quoted name = CHR 0x27 # name @ [CHR 0x27]"

text \<open>\<open>KeyError(key)\<close>; looking up an attribute on \<open>None\<close>.\<close>

definition key_error :: "string \<Rightarrow> error" where
  "key_error key = Raise ''KeyError'' (quoted key)"

definition none_has_no_attribute :: "string \<Rightarrow> error" where
  "none_has_no_attribute name =
     Raise ''AttributeError'' (quoted ''NoneType'' @ '' object has no attribute '' @ quoted name)"

subsection \<open>Data\<close>

text \<open>
  A document of the chain library: its text and the \<open>page\<close> entry of its metadata.
  A chunk is a document too.
\<close>

record document =
  page_content :: string
  page :: "nat option"

text \<open>\<open>ChatAnthropic(model=..., anthropic_api_key=os.getenv(...))\<close>.\<close>

record chat_anthropic =
  model :: string
  anthropic_api_key :: "string option"

text \<open>\<open>HuggingFaceEmbeddings(model_name=...)\<close>, once constructed.\<close>

record huggingface_embeddings =
  model_name :: string

text \<open>
  A \<open>Chroma\<close> object: the directory it persists to, the name of the embedding model it
  was given, and its entries (chunk and vector) in insertion order. A vector is a list
  of integers: similarity scores are only ever compared, so the floating point numbers
  of the embedding model are replaced by a linearly ordered type.
\<close>

type_synonym embedding_vector = "int list"

record chroma =
  vs_persist_directory :: string
  vs_embedding_model :: string
  vs_entries :: "(document \<times> embedding_vector) list"

text \<open>
  What is stored at a location: the embedding model identifier and the entries
  (the persisted index layout of the specification, section 6). The file system maps a
  directory to what is stored there; \<open>os.path.exists\<close> asks whether the directory is
  a key.
\<close>

record persisted_index =
  p_embedding_model :: string
  p_entries :: "(document \<times> embedding_vector) list"

type_synonym storage = "(string \<times> persisted_index) list"

definition path_exists :: "storage \<Rightarrow> string \<Rightarrow> bool" where
  "path_exists st dir = (map_of st dir \<noteq> None)"

text \<open>\<open>PromptTemplate(template=..., input_variables=[...])\<close>.\<close>

record prompt_template =
  template :: string
  input_variables :: "string list"

text \<open>\<open>vectorstore.as_retriever(search_kwargs={"k": k})\<close>.\<close>

record retriever =
  r_vectorstore :: chroma
  search_k :: int

text \<open>The arguments of \<open>RetrievalQA.from_chain_type\<close>, kept as the chain object.\<close>

record retrieval_qa =
  c_llm :: chat_anthropic
  chain_type :: string
  c_retriever :: retriever
  return_source_documents :: bool
  c_prompt :: prompt_template

text \<open>The attributes that \<open>__init__\<close> sets.\<close>

record imf_rag_system =
  pdf_path :: string
  persist_directory :: string
  vectorstore :: "chroma option"
  qa_chain :: "retrieval_qa option"
  llm :: chat_anthropic

text \<open>What the chain returns (\<open>result\<close>, \<open>source_documents\<close>) and what \<open>query\<close> returns.\<close>

record chain_result =
  result :: string
  source_documents :: "document list option"

record query_result =
  answer :: string
  sources :: "document list"

subsection \<open>Collaborators\<close>

text \<open>
  The libraries the program calls are not part of it. Each call into one is a
  parameter of the model: the environment, the PDF loader, the text splitter, the
  constructor of the embedding model (which loads the model and may fail), the two
  ways of obtaining a \<open>Chroma\<close> object (which read and write the file system), the
  embedding of a query, the separator that the chain puts between the texts of the
  chunks, and the language model. The constructors \<open>ChatAnthropic\<close> and
  \<open>PromptTemplate\<close> only record their arguments.
\<close>

record collaborators =
  getenv :: "string \<Rightarrow> string option"
  PyPDFLoader_load :: "string \<Rightarrow> error + document list"
  split_documents :: "int \<Rightarrow> int \<Rightarrow> document list \<Rightarrow> document list"
  HuggingFaceEmbeddings :: "string \<Rightarrow> error + huggingface_embeddings"
  Chroma_from_documents ::
    "storage \<Rightarrow> document list \<Rightarrow> huggingface_embeddings \<Rightarrow> string
       \<Rightarrow> (error + chroma) \<times> storage"
  Chroma_open ::
    "storage \<Rightarrow> string \<Rightarrow> huggingface_embeddings \<Rightarrow> (error + chroma) \<times> storage"
  embed_query :: "string \<Rightarrow> string \<Rightarrow> error + embedding_vector"
  document_separator :: string
  llm_invoke :: "chat_anthropic \<Rightarrow> string \<Rightarrow> error + string"

subsection \<open>The class\<close>

definition init :: "collaborators \<Rightarrow> string \<Rightarrow> string \<Rightarrow> imf_rag_system" where
  "init env pdf dir =
     \<lparr>pdf_path = pdf, persist_directory = dir, vectorstore = None, qa_chain = None,
      llm = \<lparr>model = ''claude-sonnet-4-20250514'',
             anthropic_api_key = getenv env ''ANTHROPIC_API_KEY''\<rparr>\<rparr>"

definition embedding_model_name :: string where
  "embedding_model_name = ''all-MiniLM-L6-v2''"

definition load_and_process_pdf ::
  "collaborators \<Rightarrow> storage \<Rightarrow> imf_rag_system \<Rightarrow> error option \<times> imf_rag_system \<times> storage" where
  "load_and_process_pdf env st self =
     (case PyPDFLoader_load env (pdf_path self) of
        Inl e \<Rightarrow> (Some e, self, st)
      | Inr pages \<Rightarrow>
          (let chunks = split_documents env 1000 200 pages
           in case HuggingFaceEmbeddings env embedding_model_name of
                Inl e \<Rightarrow> (Some e, self, st)
              | Inr embeddings \<Rightarrow>
                  (case Chroma_from_documents env st chunks embeddings
                          (persist_directory self) of
                     (Inl e, st') \<Rightarrow> (Some e, self, st')
                   | (Inr vs, st') \<Rightarrow> (None, self\<lparr>vectorstore := Some vs\<rparr>, st'))))"

definition load_existing_vectorstore ::
  "collaborators \<Rightarrow> storage \<Rightarrow> imf_rag_system \<Rightarrow> error option \<times> imf_rag_system \<times> storage" where
  "load_existing_vectorstore env st self =
     (case HuggingFaceEmbeddings env embedding_model_name of
        Inl e \<Rightarrow> (Some e, self, st)
      | Inr embeddings \<Rightarrow>
          (case Chroma_open env st (persist_directory self) embeddings of
             (Inl e, st') \<Rightarrow> (Some e, self, st')
           | (Inr vs, st') \<Rightarrow> (None, self\<lparr>vectorstore := Some vs\<rparr>, st')))"

definition PROMPT_template :: string where
  "PROMPT_template =
     ''You are an expert economic analyst answering questions about the IMF World Economic Outlook report.\<newline>\<newline>Use the following pieces of context from the report to answer the question at the end.\<newline>If you don't know the answer based on the context, say so - don't make up information.\<newline>Always cite which part of the report your answer comes from when possible.\<newline>\<newline>Context from IMF Report:\<newline>{context}\<newline>\<newline>Question: {question}\<newline>\<newline>Detailed Answer:''"

definition setup_qa_chain :: "imf_rag_system \<Rightarrow> error option \<times> imf_rag_system" where
  "setup_qa_chain self =
     (let PROMPT = \<lparr>template = PROMPT_template,
                    input_variables = [''context'', ''question'']\<rparr>
      in case vectorstore self of
           None \<Rightarrow>
             (Some (none_has_no_attribute ''as_retriever''), self)
         | Some vs \<Rightarrow>
             (None, self\<lparr>qa_chain := Some
                \<lparr>c_llm = llm self, chain_type = ''stuff'',
                 c_retriever = \<lparr>r_vectorstore = vs, search_k = 3\<rparr>,
                 return_source_documents = True, c_prompt = PROMPT\<rparr>\<rparr>))"

subsection \<open>The chain\<close>

text \<open>
  \<open>PROMPT.format(context=..., question=...)\<close>: Python's \<open>str.format\<close> with named
  fields, read from left to right. \<open>{name}\<close> is replaced by the argument of that name
  (\<open>KeyError\<close> when there is none), \<open>{{\<close> and \<open>}}\<close> stand for a brace, and an
  unmatched brace is a \<open>ValueError\<close>. Positional fields, format specifications,
  conversions and attribute lookups inside a field do not occur in the template and are
  not modelled. The inserted text is not scanned again.
\<close>

function format_str :: "(string \<times> string) list \<Rightarrow> string \<Rightarrow> error + string" where
  "format_str kwargs [] = Inr []"
| "format_str kwargs (c # cs) =
     (if c = CHR ''{'' then
        (case cs of
           [] \<Rightarrow> Inl (Raise ''ValueError'' ''Single '{' encountered in format string'')
         | d # ds \<Rightarrow>
             if d = CHR ''{'' then
               (case format_str kwargs ds of Inl e \<Rightarrow> Inl e | Inr s \<Rightarrow> Inr (CHR ''{'' # s))
             else
               (case dropWhile (\<lambda>x. x \<noteq> CHR ''}'') cs of
                  [] \<Rightarrow> Inl (Raise ''ValueError'' ''expected '}' before end of string'')
                | _ # rest \<Rightarrow>
                    (case map_of kwargs (takeWhile (\<lambda>x. x \<noteq> CHR ''}'') cs) of
                       None \<Rightarrow> Inl (key_error (takeWhile (\<lambda>x. x \<noteq> CHR ''}'') cs))
                     | Some v \<Rightarrow>
                         (case format_str kwargs rest of
                            Inl e \<Rightarrow> Inl e | Inr s \<Rightarrow> Inr (v @ s)))))
      else if c = CHR ''}'' then
        (case cs of
           [] \<Rightarrow> Inl (Raise ''ValueError'' ''Single '}' encountered in format string'')
         | d # ds \<Rightarrow>
             if d = CHR ''}'' then
               (case format_str kwargs ds of Inl e \<Rightarrow> Inl e | Inr s \<Rightarrow> Inr (CHR ''}'' # s))
             else Inl (Raise ''ValueError'' ''Single '}' encountered in format string''))
      else
        (case format_str kwargs cs of Inl e \<Rightarrow> Inl e | Inr s \<Rightarrow> Inr (c # s)))"
  by pat_completeness auto
termination
proof (relation "measure (\<lambda>(kwargs, s). length s)")
  show "wf (measure (\<lambda>(kwargs, s). length s))" by simp
next
  fix kwargs :: "(string \<times> string) list" and c x :: char and cs rest :: string
  assume "dropWhile (\<lambda>x. x \<noteq> CHR ''}'') cs = x # rest"
  then have "length (x # rest) \<le> length cs"
    by (metis length_dropWhile_le)
  then show "((kwargs, rest), (kwargs, c # cs)) \<in> measure (\<lambda>(kwargs, s). length s)"
    by simp
qed auto

text \<open>\<open>sep.join(xs)\<close>.\<close>

fun join :: "string \<Rightarrow> string list \<Rightarrow> string" where
  "join sep [] = []"
| "join sep [x] = x"
| "join sep (x # y # ys) = x @ sep @ join sep (y # ys)"

text \<open>
  Modelled from the spec: the similarity metric of the vector index (section 4.2), the
  inner product of the two vectors. The metric is inside the vector store library,
  which is not among the repository's sources.
\<close>

definition similarity :: "embedding_vector \<Rightarrow> embedding_vector \<Rightarrow> int" where
  "similarity u v = sum_list (map2 (*) u v)"

text \<open>
  Modelled from the spec: \<open>search\<close> of the vector index (section 4.2), which is the
  similarity search of \<open>Chroma\<close>, library code that is not among the repository's
  sources. It returns up to \<open>k\<close> entries of greatest similarity to the query vector,
  most similar first, ties in insertion order.
\<close>

definition search ::
  "(document \<times> embedding_vector) list \<Rightarrow> embedding_vector \<Rightarrow> nat \<Rightarrow> (document \<times> int) list" where
  "search entries qv k =
     take k (sort_key (\<lambda>(d, s). - s) (map (\<lambda>(d, v). (d, similarity qv v)) entries))"

text \<open>
  Modelled from the spec: \<open>retrieve\<close> of the retriever (section 4.3), which is the
  retriever object that \<open>as_retriever\<close> returns, library code that is not among the
  repository's sources. \<open>k\<close> must be positive; the query is embedded with the
  embedding model of the store, and the search is delegated to the index.
\<close>

definition retrieve :: "collaborators \<Rightarrow> retriever \<Rightarrow> string \<Rightarrow> error + document list" where
  "retrieve env r query_text =
     (if search_k r \<le> 0 then Inl (Raise ''InvalidArgument'' ''k must be a positive integer'')
      else case embed_query env (vs_embedding_model (r_vectorstore r)) query_text of
             Inl e \<Rightarrow> Inl e
           | Inr qv \<Rightarrow>
               Inr (map fst (search (vs_entries (r_vectorstore r)) qv (nat (search_k r)))))"

text \<open>
  Modelled from the spec: the prompt of the answer synthesizer (section 4.4), which the
  chain of type \<open>stuff\<close> builds; the chain is library code that is not among the
  repository's sources. The prompt is the chain's template with the concatenated texts
  of the retrieved chunks, in retrieved order, as \<open>context\<close> and the question,
  verbatim, as \<open>question\<close>.
\<close>

definition chain_prompt ::
  "collaborators \<Rightarrow> retrieval_qa \<Rightarrow> document list \<Rightarrow> string \<Rightarrow> error + string" where
  "chain_prompt env chain docs question =
     format_str [(''context'', join (document_separator env) (map page_content docs)),
                 (''question'', question)]
       (template (c_prompt chain))"

text \<open>
  Modelled from the spec: \<open>synthesize\<close> of the answer synthesizer (section 4.4) after
  \<open>retrieve\<close> (section 6, the query interface), which is \<open>RetrievalQA.invoke\<close>, library
  code that is not among the repository's sources. The chunks are retrieved, the
  language model is called once on the prompt, and its output is returned, together
  with the retrieved chunks when the chain was built with
  \<open>return_source_documents=True\<close>.
\<close>

definition invoke :: "collaborators \<Rightarrow> retrieval_qa \<Rightarrow> string \<Rightarrow> error + chain_result" where
  "invoke env chain question =
     (case retrieve env (c_retriever chain) question of
        Inl e \<Rightarrow> Inl e
      | Inr docs \<Rightarrow>
          (case chain_prompt env chain docs question of
             Inl e \<Rightarrow> Inl e
           | Inr prompt \<Rightarrow>
               (case llm_invoke env (c_llm chain) prompt of
                  Inl e \<Rightarrow> Inl e
                | Inr text \<Rightarrow>
                    Inr \<lparr>result = text,
                         source_documents =
                           (if return_source_documents chain then Some docs else None)\<rparr>)))"

text \<open>\<open>query\<close> changes no attribute of the object, so it returns its result only.\<close>

definition query :: "collaborators \<Rightarrow> imf_rag_system \<Rightarrow> string \<Rightarrow> error + query_result" where
  "query env self question =
     (case qa_chain self of
        None \<Rightarrow> Inl (Raise ''Exception'' ''QA chain not set up. Run setup_qa_chain() first.'')
      | Some chain \<Rightarrow>
          (case invoke env chain question of
             Inl e \<Rightarrow> Inl e
           | Inr res \<Rightarrow>
               (case source_documents res of
                  None \<Rightarrow> Inl (key_error ''source_documents'')
                | Some srcs \<Rightarrow> Inr \<lparr>answer = result res, sources = srcs\<rparr>)))"

text \<open>
  A call \<open>rag.query(question, **kwargs)\<close>. The signature of \<open>query\<close> (line 149) has
  the one parameter \<open>question\<close> next to \<open>self\<close>, so when the caller gives a keyword
  argument as well Python raises \<open>TypeError\<close> before the body runs. The messages are
  those of Python 3.9; later versions put the name of the class before \<open>query()\<close>.
\<close>

definition call_query ::
  "collaborators \<Rightarrow> imf_rag_system \<Rightarrow> string \<Rightarrow> (string \<times> int) list
     \<Rightarrow> error + query_result" where
  "call_query env self question kwargs =
     (case kwargs of
        [] \<Rightarrow> query env self question
      | (name, v) # _ \<Rightarrow>
          if name \<in> set [''self'', ''question'']
          then Inl (Raise ''TypeError''
                      (''query() got multiple values for argument '' @ quoted name))
          else Inl (Raise ''TypeError''
                      (''query() got an unexpected keyword argument '' @ quoted name)))"

subsection \<open>The interactive session of \<open>main\<close>\<close>

text \<open>
  \<open>str.strip\<close> and \<open>str.lower\<close> on code points below 256. The white space there is
  U+0009 to U+000D, U+001C to U+0020, U+0085 and U+00A0; the upper case letters are
  \<open>A\<close> to \<open>Z\<close> and U+00C0 to U+00DE without U+00D7, each 32 below its lower case
  letter.
\<close>

definition is_space :: "char \<Rightarrow> bool" where
  "is_space c =
     (let n = (of_char c :: nat)
      in (9 \<le> n \<and> n \<le> 13) \<or> (28 \<le> n \<and> n \<le> 32) \<or> n = 133 \<or> n = 160)"

definition strip :: "string \<Rightarrow> string" where
  "strip s = rev (dropWhile is_space (rev (dropWhile is_space s)))"

definition lower_char :: "char \<Rightarrow> char" where
  "lower_char c =
     (let n = (of_char c :: nat)
      in if (65 \<le> n \<and> n \<le> 90) \<or> (192 \<le> n \<and> n \<le> 222 \<and> n \<noteq> 215)
         then char_of (n + 32) else c)"

definition lower :: "string \<Rightarrow> string" where
  "lower s = map lower_char s"

text \<open>
  What the loop shows for one question: the result of the query, or the line
  \<open>[ERROR] e\<close> of the handler, which catches \<open>Exception\<close>. The loop ends with
  \<open>Goodbye!\<close> or with an exception that nothing catches: one raised by a query that is
  not an \<open>Exception\<close>, or the \<open>EOFError\<close> that \<open>input\<close> raises when the input is
  exhausted.
\<close>

datatype event = Answered query_result | Reported error

datatype session_end = Goodbye | Crashed error

fun main_loop ::
  "collaborators \<Rightarrow> imf_rag_system \<Rightarrow> string list \<Rightarrow> event list \<times> session_end" where
  "main_loop env rag [] = ([], Crashed (Raise ''EOFError'' ''EOF when reading a line''))"
| "main_loop env rag (line # lines) =
     (let question = strip line
      in if lower question \<in> set [''quit'', ''exit'', ''q''] then ([], Goodbye)
         else if question = [] then main_loop env rag lines
         else (case query env rag question of
                 Inl e \<Rightarrow>
                   if is_exception e
                   then (let (evs, fin) = main_loop env rag lines in (Reported e # evs, fin))
                   else ([], Crashed e)
               | Inr res \<Rightarrow>
                   (let (evs, fin) = main_loop env rag lines in (Answered res # evs, fin))))"

definition PDF_PATH :: string where
  "PDF_PATH = ''imf_weo_ch1_oct2024.pdf''"

text \<open>
  \<open>main\<close> up to the loop (lines 196 to 207): the object is constructed, the index is
  loaded when the location exists and built otherwise, and the chain is set up. An
  exception ends \<open>main\<close> there.
\<close>

definition main_setup ::
  "collaborators \<Rightarrow> storage \<Rightarrow> error option \<times> imf_rag_system \<times> storage" where
  "main_setup env st =
     (let rag = init env PDF_PATH ''./chroma_db'';
          (err, rag, st) =
            (if path_exists st (persist_directory rag)
             then load_existing_vectorstore env st rag
             else load_and_process_pdf env st rag)
      in case err of
           Some e \<Rightarrow> (Some e, rag, st)
         | None \<Rightarrow> (case setup_qa_chain rag of (err, rag) \<Rightarrow> (err, rag, st)))"

definition main ::
  "collaborators \<Rightarrow> storage \<Rightarrow> string list \<Rightarrow> (event list \<times> session_end) \<times> storage" where
  "main env st lines =
     (case main_setup env st of
        (Some e, rag, st) \<Rightarrow> (([], Crashed e), st)
      | (None, rag, st) \<Rightarrow> (main_loop env rag lines, st))"

subsection \<open>Simulated collaborators\<close>

text \<open>
  Stand-ins for the libraries, used where a property is evaluated at a concrete input.
  The embedding counts the letters \<open>g\<close> and \<open>i\<close> of a text. The store embeds the chunks
  in batches and writes each batch to the location as soon as it is embedded; opening
  a location where nothing is stored creates an empty collection there; neither looks
  at the embedding model identifier that is stored. The constructor of the embedding
  model succeeds. The language model answers with a
  text that grows with the prompt it was given, the loader returns the pages it is
  constructed with and the splitter returns one chunk per page.
\<close>

definition sim_embed_text :: "string \<Rightarrow> embedding_vector" where
  "sim_embed_text t =
     [int (length (filter (\<lambda>c. c = CHR ''g'') t)), int (length (filter (\<lambda>c. c = CHR ''i'') t))]"

definition batches :: "nat \<Rightarrow> 'a list \<Rightarrow> 'a list list" where
  "batches n xs = map (\<lambda>i. take n (drop (i * n) xs)) [0 ..< (length xs + n - 1) div n]"

fun add_batches ::
  "(string list \<Rightarrow> error + embedding_vector list) \<Rightarrow> chroma \<Rightarrow> storage \<Rightarrow> document list list
     \<Rightarrow> (error + chroma) \<times> storage" where
  "add_batches embed_fn vs st [] = (Inr vs, st)"
| "add_batches embed_fn vs st (b # bs) =
     (case embed_fn (map page_content b) of
        Inl e \<Rightarrow> (Inl e, st)
      | Inr vecs \<Rightarrow>
          (let vs' = vs\<lparr>vs_entries := vs_entries vs @ zip b vecs\<rparr>
           in add_batches embed_fn vs'
                (AList.update (vs_persist_directory vs')
                   \<lparr>p_embedding_model = vs_embedding_model vs', p_entries = vs_entries vs'\<rparr> st)
                bs))"

definition sim_open ::
  "storage \<Rightarrow> string \<Rightarrow> huggingface_embeddings \<Rightarrow> (error + chroma) \<times> storage" where
  "sim_open st dir embeddings =
     (case map_of st dir of
        None \<Rightarrow>
          (Inr \<lparr>vs_persist_directory = dir, vs_embedding_model = model_name embeddings,
                vs_entries = []\<rparr>,
           AList.update dir \<lparr>p_embedding_model = model_name embeddings, p_entries = []\<rparr> st)
      | Some p \<Rightarrow>
          (Inr \<lparr>vs_persist_directory = dir, vs_embedding_model = model_name embeddings,
                vs_entries = p_entries p\<rparr>, st))"

definition sim_from_documents ::
  "(string list \<Rightarrow> error + embedding_vector list) \<Rightarrow> nat \<Rightarrow> storage \<Rightarrow> document list
     \<Rightarrow> huggingface_embeddings \<Rightarrow> string \<Rightarrow> (error + chroma) \<times> storage" where
  "sim_from_documents embed_fn batch_size st docs embeddings dir =
     (case sim_open st dir embeddings of
        (Inl e, st') \<Rightarrow> (Inl e, st')
      | (Inr vs, st') \<Rightarrow> add_batches embed_fn vs st' (batches batch_size docs))"

definition sim_env ::
  "document list \<Rightarrow> (string list \<Rightarrow> error + embedding_vector list) \<Rightarrow> collaborators" where
  "sim_env pages embed_fn =
     \<lparr>getenv = (\<lambda>name. None),
      PyPDFLoader_load = (\<lambda>path. Inr pages),
      split_documents = (\<lambda>chunk_size chunk_overlap docs. docs),
      HuggingFaceEmbeddings = (\<lambda>name. Inr \<lparr>model_name = name\<rparr>),
      Chroma_from_documents = sim_from_documents embed_fn 2,
      Chroma_open = sim_open,
      embed_query = (\<lambda>name q. Inr (sim_embed_text q)),
      document_separator = ''\<newline>\<newline>'',
      llm_invoke = (\<lambda>client prompt. Inr (''answer to a prompt of '' @
                      replicate (length prompt div 100) CHR ''#''))\<rparr>"

definition embed_all :: "string list \<Rightarrow> error + embedding_vector list" where
  "embed_all texts = Inr (map sim_embed_text texts)"

definition embed_failing_on :: "string \<Rightarrow> string list \<Rightarrow> error + embedding_vector list" where
  "embed_failing_on bad texts =
     (if bad \<in> set texts then Inl (Raise ''RuntimeError'' ''embedding backend unavailable'')
      else Inr (map sim_embed_text texts))"

definition chunk :: "string \<Rightarrow> nat \<Rightarrow> document" where
  "chunk t p = \<lparr>page_content = t, page = Some p\<rparr>"

text \<open>
  The example: a report of five one-chunk pages, the object as \<open>__init__\<close> leaves it,
  the object after the index is built, the object after the chain is set up, and what
  these contain. \<open>failing_env\<close> is the same environment with an embedding provider that
  fails on the batch that holds the third chunk; \<open>offline_env\<close> is the same environment
  with a language model that cannot be reached; \<open>foreign_storage\<close> holds an index that
  records another embedding model; the \<open>single\<close> example is a report of one page.
\<close>

definition example_pages :: "document list" where
  "example_pages =
     [chunk ''growth is strong'' 0, chunk ''inflation is falling in india'' 1, chunk ''gg'' 2,
      chunk ''risks'' 3, chunk ''igig'' 4]"

definition example_env :: collaborators where
  "example_env = sim_env example_pages embed_all"

definition failing_env :: collaborators where
  "failing_env = sim_env example_pages (embed_failing_on ''gg'')"

definition offline_env :: collaborators where
  "offline_env =
     example_env\<lparr>llm_invoke :=
       (\<lambda>client prompt. Inl (Raise ''APIConnectionError'' ''Connection error.''))\<rparr>"

definition example_embeddings :: huggingface_embeddings where
  "example_embeddings = \<lparr>model_name = ''all-MiniLM-L6-v2''\<rparr>"

definition example_new :: imf_rag_system where
  "example_new = init example_env PDF_PATH ''./chroma_db''"

definition example_indexed :: imf_rag_system where
  "example_indexed = fst (snd (load_and_process_pdf example_env [] example_new))"

definition example_ready :: imf_rag_system where
  "example_ready = snd (setup_qa_chain example_indexed)"

definition example_store :: chroma where
  "example_store =
     \<lparr>vs_persist_directory = ''./chroma_db'', vs_embedding_model = ''all-MiniLM-L6-v2'',
      vs_entries = map (\<lambda>d. (d, sim_embed_text (page_content d))) example_pages\<rparr>"

definition example_storage :: storage where
  "example_storage =
     [(''./chroma_db'',
       \<lparr>p_embedding_model = ''all-MiniLM-L6-v2'', p_entries = vs_entries example_store\<rparr>)]"

definition example_chain :: retrieval_qa where
  "example_chain =
     \<lparr>c_llm = \<lparr>model = ''claude-sonnet-4-20250514'', anthropic_api_key = None\<rparr>,
      chain_type = ''stuff'',
      c_retriever = \<lparr>r_vectorstore = example_store, search_k = 3\<rparr>,
      return_source_documents = True,
      c_prompt = \<lparr>template = PROMPT_template, input_variables = [''context'', ''question'']\<rparr>\<rparr>"

definition example_sources :: "document list" where
  "example_sources = [chunk ''growth is strong'' 0, chunk ''gg'' 2, chunk ''igig'' 4]"

definition single_env :: collaborators where
  "single_env = sim_env [chunk ''growth is strong'' 0] embed_all"

definition single_indexed :: imf_rag_system where
  "single_indexed =
     fst (snd (load_and_process_pdf single_env [] (init single_env PDF_PATH ''./chroma_db'')))"

definition single_ready :: imf_rag_system where
  "single_ready = snd (setup_qa_chain single_indexed)"

definition single_chain :: retrieval_qa where
  "single_chain =
     \<lparr>c_llm = \<lparr>model = ''claude-sonnet-4-20250514'', anthropic_api_key = None\<rparr>,
      chain_type = ''stuff'',
      c_retriever =
        \<lparr>r_vectorstore =
           \<lparr>vs_persist_directory = ''./chroma_db'', vs_embedding_model = ''all-MiniLM-L6-v2'',
            vs_entries = [(chunk ''growth is strong'' 0, [2, 1])]\<rparr>,
         search_k = 3\<rparr>,
      return_source_documents = True,
      c_prompt = \<lparr>template = PROMPT_template, input_variables = [''context'', ''question'']\<rparr>\<rparr>"

definition foreign_storage :: storage where
  "foreign_storage =
     [(''./chroma_db'',
       \<lparr>p_embedding_model = ''text-embedding-3-small'',
        p_entries = [(chunk ''growth is strong'' 0, [1, 0, 0])]\<rparr>)]"

text \<open>
  The text that the template of \<open>setup_qa_chain\<close> gives for a context and a question.
\<close>

definition prompt_text :: "string \<Rightarrow> string \<Rightarrow> string" where
  "prompt_text ctx q =
     ''You are an expert economic analyst answering questions about the IMF World Economic Outlook report.\<newline>\<newline>Use the following pieces of context from the report to answer the question at the end.\<newline>If you don't know the answer based on the context, say so - don't make up information.\<newline>Always cite which part of the report your answer comes from when possible.\<newline>\<newline>Context from IMF Report:\<newline>'' @ ctx @ ''\<newline>\<newline>Question: '' @ q @ ''\<newline>\<newline>Detailed Answer:''"

section \<open>Properties\<close>

subsection \<open>Auxiliary facts\<close>

lemma format_PROMPT:
  "format_str [(''context'', ctx), (''question'', q)] PROMPT_template = Inr (prompt_text ctx q)"
  by (simp add: PROMPT_template_def prompt_text_def)

lemma length_search: "length (search entries qv k) = min k (length entries)"
  by (simp add: search_def)

lemma sorted_search: "sorted_wrt (\<lambda>a b. snd b \<le> snd a) (search entries qv k)"
proof -
  let ?ys = "sort_key (\<lambda>(d, s). - s) (map (\<lambda>(d, v). (d, similarity qv v)) entries)"
  have "sorted (map (\<lambda>(d, s). - s) ?ys)"
    by (rule sorted_sort_key)
  then have "sorted_wrt (\<lambda>a b. snd b \<le> snd a) ?ys"
    by (simp add: sorted_wrt_map case_prod_unfold)
  then show ?thesis
    unfolding search_def by (rule sorted_wrt_take)
qed

lemma setup_qa_chain_ok:
  "vectorstore rag0 = Some vs \<Longrightarrow>
   setup_qa_chain rag0 =
     (None, rag0\<lparr>qa_chain := Some
        \<lparr>c_llm = llm rag0, chain_type = ''stuff'',
         c_retriever = \<lparr>r_vectorstore = vs, search_k = 3\<rparr>,
         return_source_documents = True,
         c_prompt = \<lparr>template = PROMPT_template, input_variables = [''context'', ''question'']\<rparr>\<rparr>\<rparr>)"
  by (simp add: setup_qa_chain_def)

lemma setup_qa_chain_None:
  "setup_qa_chain rag0 = (None, rag) \<Longrightarrow> \<exists>vs. vectorstore rag0 = Some vs"
  by (cases "vectorstore rag0") (simp_all add: setup_qa_chain_def)

lemma example_new_unindexed: "vectorstore example_new = None \<and> qa_chain example_new = None"
  by (simp add: example_new_def init_def)

lemma example_ready_chain: "qa_chain example_ready = Some example_chain"
  by code_simp

lemma example_indexed_store: "vectorstore example_indexed = Some example_store"
  by code_simp

lemma example_setup: "setup_qa_chain example_indexed = (None, example_ready)"
  by code_simp

lemma single_setup: "setup_qa_chain single_indexed = (None, single_ready)"
  by code_simp

lemma single_ready_chain: "qa_chain single_ready = Some single_chain"
  by code_simp






lemma main_setup_configured:
  "main_setup env st = (None, rag, st') \<Longrightarrow> qa_chain rag \<noteq> None"
  by (auto simp: main_setup_def Let_def setup_qa_chain_def
      split: prod.splits option.splits if_splits)


lemma failing_embeddings_constructed:
  "HuggingFaceEmbeddings failing_env ''all-MiniLM-L6-v2'' = Inr example_embeddings"
  by (simp add: failing_env_def sim_env_def example_embeddings_def)

lemma failing_build:
  "Chroma_from_documents failing_env [] (split_documents failing_env 1000 200 example_pages)
     example_embeddings (persist_directory example_new) =
   (Inl (Raise ''RuntimeError'' ''embedding backend unavailable''),
    [(''./chroma_db'',
      \<lparr>p_embedding_model = ''all-MiniLM-L6-v2'',
       p_entries = [(chunk ''growth is strong'' 0, [2, 1]),
                    (chunk ''inflation is falling in india'' 1, [1, 7])]\<rparr>)])"
  by code_simp

lemma example_query:
  "query example_env example_ready ''what about growth'' =
     Inr \<lparr>answer = ''answer to a prompt of ####'', sources = example_sources\<rparr>"
  by code_simp

subsection \<open>The sources of an answer\<close>

text \<open>C1: when the chain is set up, the \<open>sources\<close> that \<open>query\<close> returns are the
  chunks the retriever returned for the question, in that order, and the answer is what
  the language model returned for the prompt built from exactly these chunks and the
  question. Conversely, when retrieval, prompt construction and the language model
  succeed on a chain that returns its source documents, \<open>query\<close> returns that answer with
  those chunks.\<close>

theorem query_sources_are_the_context:
  assumes "qa_chain rag = Some chain"
  shows "(query env rag q = Inr res \<longrightarrow>
            retrieve env (c_retriever chain) q = Inr (sources res) \<and>
            (\<exists>prompt. chain_prompt env chain (sources res) q = Inr prompt \<and>
                      llm_invoke env (c_llm chain) prompt = Inr (answer res))) \<and>
         (return_source_documents chain \<longrightarrow>
            retrieve env (c_retriever chain) q = Inr docs \<longrightarrow>
            chain_prompt env chain docs q = Inr prompt' \<longrightarrow>
            llm_invoke env (c_llm chain) prompt' = Inr text \<longrightarrow>
            query env rag q = Inr \<lparr>answer = text, sources = docs\<rparr>)"
  using assms
  by (auto simp: query_def invoke_def split: sum.splits option.splits if_splits)

theorem query_sources_are_the_context_witness:
  "qa_chain example_ready = Some example_chain \<and>
   query example_env example_ready ''what about growth'' =
     Inr \<lparr>answer = ''answer to a prompt of ####'', sources = example_sources\<rparr> \<and>
   retrieve example_env (c_retriever example_chain) ''what about growth'' = Inr example_sources \<and>
   (\<exists>prompt. chain_prompt example_env example_chain example_sources ''what about growth'' =
               Inr prompt \<and>
             llm_invoke example_env (c_llm example_chain) prompt = Inr ''answer to a prompt of ####'')"
  using query_sources_are_the_context [OF example_ready_chain, of example_env "''what about growth''"
      "\<lparr>answer = ''answer to a prompt of ####'', sources = example_sources\<rparr>"]
    example_ready_chain example_query
  by simp

text \<open>C3, as the code has it: after \<open>setup_qa_chain\<close> (which fixes \<open>k = 3\<close>), the sources
  of a successful query are the first three entries of the index ranked by similarity
  to the embedded question, so their number is the smaller of 3 and the number of
  indexed chunks, and they are in order of descending similarity.\<close>

theorem query_default_k_sources:
  assumes "vectorstore rag0 = Some vs" and "setup_qa_chain rag0 = (None, rag)"
    and "query env rag q = Inr res"
  shows "\<exists>qv. embed_query env (vs_embedding_model vs) q = Inr qv \<and>
              sources res = map fst (search (vs_entries vs) qv 3) \<and>
              length (sources res) = min 3 (length (vs_entries vs)) \<and>
              sorted_wrt (\<lambda>a b. snd b \<le> snd a) (search (vs_entries vs) qv 3)"
proof -
  from assms(1,2) have rag: "qa_chain rag = Some
        \<lparr>c_llm = llm rag0, chain_type = ''stuff'',
         c_retriever = \<lparr>r_vectorstore = vs, search_k = 3\<rparr>,
         return_source_documents = True,
         c_prompt = \<lparr>template = PROMPT_template, input_variables = [''context'', ''question'']\<rparr>\<rparr>"
    by (auto simp: setup_qa_chain_ok)
  from assms(3) obtain qv where qv: "embed_query env (vs_embedding_model vs) q = Inr qv"
    and src: "sources res = map fst (search (vs_entries vs) qv 3)"
    by (auto simp: rag query_def invoke_def retrieve_def split: sum.splits option.splits)
  from src have "length (sources res) = min 3 (length (vs_entries vs))"
    by (simp add: length_search)
  with qv src sorted_search show ?thesis by blast
qed

theorem query_default_k_sources_witness:
  "vectorstore example_indexed = Some example_store \<and>
   setup_qa_chain example_indexed = (None, example_ready) \<and>
   query example_env example_ready ''what about growth'' =
     Inr \<lparr>answer = ''answer to a prompt of ####'', sources = example_sources\<rparr> \<and>
   example_sources = map fst (search (vs_entries example_store) [1, 0] 3) \<and>
   length example_sources = min 3 (length (vs_entries example_store)) \<and>
   sorted_wrt (\<lambda>a b. snd b \<le> snd a) (search (vs_entries example_store) [1, 0] 3)"
proof -
  have e: "embed_query example_env (vs_embedding_model example_store) ''what about growth'' = Inr [1, 0]"
    by code_simp
  show ?thesis
    using query_default_k_sources [OF example_indexed_store example_setup example_query]
      example_indexed_store example_setup example_query
    by (auto simp: e)
qed

text \<open>C3, as stated, fails: on the index of a report of one chunk, set up by
  \<open>setup_qa_chain\<close>, a query without any \<open>k\<close> returns one source, not three.\<close>

theorem query_default_k_counterexample:
  "setup_qa_chain single_indexed = (None, single_ready) \<and>
   map_sum id (\<lambda>res. length (sources res)) (query single_env single_ready ''what about growth'') = Inr 1"
  by code_simp

text \<open>C8, as the code has it: \<open>k\<close> is not the caller's to give. \<open>query\<close> takes the
  question and nothing else, so a call that passes a \<open>k\<close>, whatever its value, raises
  \<open>TypeError\<close> before anything is retrieved; a call with the question alone runs
  \<open>query\<close>, and the retriever that \<open>setup_qa_chain\<close> builds has \<open>k = 3\<close>.\<close>

theorem retrieval_k_is_fixed:
  "fails_with ''TypeError'' (raised (call_query env rag q ((''k'', k) # kwargs))) \<and>
   call_query env rag q [] = query env rag q \<and>
   (setup_qa_chain rag0 = (None, rag') \<longrightarrow>
      (\<exists>chain. qa_chain rag' = Some chain \<and> search_k (c_retriever chain) = 3))"
proof -
  have "\<exists>chain. qa_chain rag' = Some chain \<and> search_k (c_retriever chain) = 3"
    if "setup_qa_chain rag0 = (None, rag')"
    using that setup_qa_chain_None[OF that] by (auto simp: setup_qa_chain_ok)
  then show ?thesis
    by (simp add: call_query_def fails_with_def)
qed

theorem retrieval_k_is_fixed_witness:
  "setup_qa_chain example_indexed = (None, example_ready) \<and>
   fails_with ''TypeError'' (raised (call_query example_env example_ready ''anything'' [(''k'', 0)])) \<and>
   call_query example_env example_ready ''anything'' [] =
     query example_env example_ready ''anything'' \<and>
   (\<exists>chain. qa_chain example_ready = Some chain \<and> search_k (c_retriever chain) = 3)"
  using retrieval_k_is_fixed [where env = example_env and rag = example_ready
      and q = "''anything''" and kwargs = "[]" and k = 0
      and ?rag0.0 = example_indexed and rag' = example_ready]
    example_setup
  by blast

text \<open>C8, as stated, fails: the call \<open>rag.query("anything", k=0)\<close> on the example, a
  retrieval call with a non-positive \<open>k\<close>, raises \<open>TypeError\<close>, not \<open>InvalidArgument\<close>.\<close>

theorem retrieval_k_counterexample:
  "fails_with ''TypeError'' (raised (call_query example_env example_ready ''anything'' [(''k'', 0)])) \<and>
   \<not> fails_with ''InvalidArgument''
       (raised (call_query example_env example_ready ''anything'' [(''k'', 0)]))"
  by (simp add: call_query_def fails_with_def)

subsection \<open>The prompt\<close>

text \<open>C4: the prompt built for a question and a sequence of chunks is the same text for
  any two chains that \<open>setup_qa_chain\<close> has set up, whatever object, language model
  client and index they belong to: it is the text of the template with the joined chunk
  texts and the question put in, and its construction does not fail, whatever characters
  the chunks and the question contain.\<close>

theorem prompt_depends_on_question_and_chunks_only:
  assumes "setup_qa_chain rag1 = (None, rag1')" and "qa_chain rag1' = Some chain1"
    and "setup_qa_chain rag2 = (None, rag2')" and "qa_chain rag2' = Some chain2"
  shows "chain_prompt env chain1 docs q = chain_prompt env chain2 docs q \<and>
         chain_prompt env chain1 docs q =
           Inr (prompt_text (join (document_separator env) (map page_content docs)) q)"
proof -
  have "c_prompt chain = \<lparr>template = PROMPT_template, input_variables = [''context'', ''question'']\<rparr>"
    if "setup_qa_chain r = (None, r')" and "qa_chain r' = Some chain" for r r' chain
    using that setup_qa_chain_None[OF that(1)] by (auto simp: setup_qa_chain_ok)
  from this[OF assms(1,2)] this[OF assms(3,4)] show ?thesis
    by (simp add: chain_prompt_def format_PROMPT)
qed

theorem prompt_depends_on_question_and_chunks_only_witness:
  "setup_qa_chain example_indexed = (None, example_ready) \<and>
   qa_chain example_ready = Some example_chain \<and>
   setup_qa_chain single_indexed = (None, single_ready) \<and>
   qa_chain single_ready = Some single_chain \<and>
   chain_prompt example_env example_chain example_sources ''is {growth} strong?'' =
     chain_prompt example_env single_chain example_sources ''is {growth} strong?'' \<and>
   chain_prompt example_env example_chain example_sources ''is {growth} strong?'' =
     Inr (prompt_text (join (document_separator example_env) (map page_content example_sources))
            ''is {growth} strong?'')"
proof -
  note w = prompt_depends_on_question_and_chunks_only
      [OF example_setup example_ready_chain single_setup single_ready_chain,
       of example_env example_sources "''is {growth} strong?''"]
  show ?thesis
    by (intro conjI)
      (rule example_setup example_ready_chain single_setup single_ready_chain
         w[THEN conjunct1] w[THEN conjunct2])+
qed

subsection \<open>Calls before the pipeline is ready\<close>

text \<open>C5, as the code has it: \<open>query\<close> on an object whose chain is not set up raises the
  generic \<open>Exception\<close> with the message \<open>QA chain not set up. Run setup_qa_chain() first.\<close>,
  an error of the kind that the handler of the loop of \<open>main\<close> catches. \<open>main\<close> itself
  starts its loop only with the chain set up; there, a query that raises an \<open>Exception\<close>
  is reported and the loop goes on with the lines that follow.\<close>

theorem query_before_setup_is_generic_exception:
  "(qa_chain rag = None \<longrightarrow>
      query env rag q =
        Inl (Raise ''Exception'' ''QA chain not set up. Run setup_qa_chain() first.'') \<and>
      is_exception (Raise ''Exception'' ''QA chain not set up. Run setup_qa_chain() first.'')) \<and>
   (main_setup env st = (None, rag', st') \<longrightarrow>
      qa_chain rag' \<noteq> None \<and>
      (query env rag' (strip line) = Inl e \<longrightarrow> is_exception e \<longrightarrow> strip line \<noteq> [] \<longrightarrow>
       lower (strip line) \<notin> set [''quit'', ''exit'', ''q''] \<longrightarrow>
         main env st (line # lines) =
           ((Reported e # fst (fst (main env st lines)), snd (fst (main env st lines))), st')))"
proof (intro conjI impI)
  assume "qa_chain rag = None"
  then show "query env rag q =
      Inl (Raise ''Exception'' ''QA chain not set up. Run setup_qa_chain() first.'')"
    by (simp add: query_def)
next
  show "is_exception (Raise ''Exception'' ''QA chain not set up. Run setup_qa_chain() first.'')"
    by (simp add: is_exception_def)
next
  assume "main_setup env st = (None, rag', st')"
  then show "qa_chain rag' \<noteq> None"
    by (rule main_setup_configured)
next
  assume ms: "main_setup env st = (None, rag', st')"
    and q: "query env rag' (strip line) = Inl e" and e: "is_exception e"
    and l: "strip line \<noteq> []" "lower (strip line) \<notin> set [''quit'', ''exit'', ''q'']"
  from ms have m: "main env st xs = (main_loop env rag' xs, st')" for xs
    by (simp add: main_def)
  from q e l have "main_loop env rag' (line # lines) =
      (Reported e # fst (main_loop env rag' lines), snd (main_loop env rag' lines))"
    by (simp add: Let_def split: prod.splits)
  then show "main env st (line # lines) =
      ((Reported e # fst (fst (main env st lines)), snd (fst (main env st lines))), st')"
    by (simp add: m)
qed

theorem query_before_setup_is_generic_exception_witness:
  "qa_chain example_new = None \<and>
   main_setup offline_env [] = (None, example_ready, example_storage) \<and>
   query offline_env example_ready (strip '' what about growth '') =
     Inl (Raise ''APIConnectionError'' ''Connection error.'') \<and>
   is_exception (Raise ''APIConnectionError'' ''Connection error.'') \<and>
   strip '' what about growth '' \<noteq> [] \<and>
   lower (strip '' what about growth '') \<notin> set [''quit'', ''exit'', ''q''] \<and>
   query offline_env example_new ''What is the growth forecast?'' =
     Inl (Raise ''Exception'' ''QA chain not set up. Run setup_qa_chain() first.'') \<and>
   is_exception (Raise ''Exception'' ''QA chain not set up. Run setup_qa_chain() first.'') \<and>
   qa_chain example_ready \<noteq> None \<and>
   main offline_env [] ['' what about growth '', ''quit''] =
     ((Reported (Raise ''APIConnectionError'' ''Connection error.'')
         # fst (fst (main offline_env [] [''quit''])),
       snd (fst (main offline_env [] [''quit'']))), example_storage)"
proof -
  have h1: "qa_chain example_new = None"
    by (simp add: example_new_unindexed)
  have h2: "main_setup offline_env [] = (None, example_ready, example_storage)"
    by code_simp
  have h3: "query offline_env example_ready (strip '' what about growth '') =
      Inl (Raise ''APIConnectionError'' ''Connection error.'')"
    by code_simp
  have h4: "is_exception (Raise ''APIConnectionError'' ''Connection error.'')"
    by (simp add: is_exception_def)
  have h5: "strip '' what about growth '' \<noteq> []"
    by code_simp
  have h6: "lower (strip '' what about growth '') \<notin> set [''quit'', ''exit'', ''q'']"
    by code_simp
  note w = query_before_setup_is_generic_exception
      [where rag = example_new and env = offline_env and q = "''What is the growth forecast?''"
         and st = "[]" and rag' = example_ready and st' = example_storage
         and line = "'' what about growth ''" and lines = "[''quit'']"
         and e = "Raise ''APIConnectionError'' ''Connection error.''"]
  from w h1 have a: "query offline_env example_new ''What is the growth forecast?'' =
        Inl (Raise ''Exception'' ''QA chain not set up. Run setup_qa_chain() first.'')"
      "is_exception (Raise ''Exception'' ''QA chain not set up. Run setup_qa_chain() first.'')"
    by blast+
  from w h2 have b: "qa_chain example_ready \<noteq> None"
    by blast
  from w h2 h3 h4 h5 h6 have c: "main offline_env [] ['' what about growth '', ''quit''] =
     ((Reported (Raise ''APIConnectionError'' ''Connection error.'')
         # fst (fst (main offline_env [] [''quit''])),
       snd (fst (main offline_env [] [''quit'']))), example_storage)"
    by blast
  show ?thesis
    by (intro conjI) (rule h1 h2 h3 h4 h5 h6 a b c)+
qed

text \<open>C5, as stated, fails: the exception that \<open>query\<close> raises on the object that
  \<open>__init__\<close> leaves is not of a class \<open>InvalidState\<close>.\<close>

theorem query_before_setup_counterexample:
  "\<not> fails_with ''InvalidState''
       (raised (query example_env example_new ''What is the growth forecast?''))"
  by (simp add: query_def example_new_def init_def fails_with_def)

text \<open>C10: \<open>setup_qa_chain\<close> on an object without a vector store raises \<open>AttributeError\<close>
  (the attribute \<open>as_retriever\<close> is looked up on \<open>None\<close>) and leaves the object as it
  was; nothing checks before that an index was built or loaded.\<close>

theorem setup_qa_chain_without_index:
  "vectorstore self = None \<Longrightarrow>
     setup_qa_chain self = (Some (none_has_no_attribute ''as_retriever''), self) \<and>
     fails_with ''AttributeError'' (fst (setup_qa_chain self))"
  by (simp add: setup_qa_chain_def fails_with_def none_has_no_attribute_def)

theorem setup_qa_chain_without_index_witness:
  "vectorstore example_new = None \<and>
   setup_qa_chain example_new = (Some (none_has_no_attribute ''as_retriever''), example_new) \<and>
   fails_with ''AttributeError'' (fst (setup_qa_chain example_new))"
proof -
  have h: "vectorstore example_new = None"
    by (simp add: example_new_unindexed)
  from h setup_qa_chain_without_index [OF h] show ?thesis
    by (rule conjI)
qed

subsection \<open>Loading and building the index\<close>

text \<open>C6, as the code has it: the program compares no embedding model identifiers.
  \<open>load_existing_vectorstore\<close> constructs the embedding model \<open>all-MiniLM-L6-v2\<close> and
  opens the store with it; it fails exactly when one of these two constructors fails,
  with that constructor's error. \<open>load_and_process_pdf\<close> builds with the same model
  name, and once the PDF is loaded it fails exactly when one of its two constructors
  fails.\<close>

theorem load_existing_vectorstore_has_no_model_check:
  "fst (load_existing_vectorstore env st rag) =
     (case HuggingFaceEmbeddings env ''all-MiniLM-L6-v2'' of
        Inl e \<Rightarrow> Some e
      | Inr embeddings \<Rightarrow> raised (fst (Chroma_open env st (persist_directory rag) embeddings))) \<and>
   (PyPDFLoader_load env (pdf_path rag) = Inr pages \<longrightarrow>
      fst (load_and_process_pdf env st rag) =
        (case HuggingFaceEmbeddings env ''all-MiniLM-L6-v2'' of
           Inl e \<Rightarrow> Some e
         | Inr embeddings \<Rightarrow>
             raised (fst (Chroma_from_documents env st (split_documents env 1000 200 pages)
                            embeddings (persist_directory rag)))))"
  by (auto simp: load_existing_vectorstore_def load_and_process_pdf_def embedding_model_name_def
      split: prod.splits sum.splits)

theorem load_existing_vectorstore_has_no_model_check_witness:
  "PyPDFLoader_load example_env (pdf_path example_new) = Inr example_pages \<and>
   fst (load_existing_vectorstore example_env foreign_storage example_new) =
     (case HuggingFaceEmbeddings example_env ''all-MiniLM-L6-v2'' of
        Inl e \<Rightarrow> Some e
      | Inr embeddings \<Rightarrow>
          raised (fst (Chroma_open example_env foreign_storage (persist_directory example_new)
                         embeddings))) \<and>
   fst (load_and_process_pdf example_env foreign_storage example_new) =
     (case HuggingFaceEmbeddings example_env ''all-MiniLM-L6-v2'' of
        Inl e \<Rightarrow> Some e
      | Inr embeddings \<Rightarrow>
          raised (fst (Chroma_from_documents example_env foreign_storage
                         (split_documents example_env 1000 200 example_pages)
                         embeddings (persist_directory example_new))))"
proof -
  have h: "PyPDFLoader_load example_env (pdf_path example_new) = Inr example_pages"
    by (simp add: example_env_def sim_env_def)
  show ?thesis
    using h load_existing_vectorstore_has_no_model_check
      [of example_env foreign_storage example_new example_pages]
    by blast
qed

text \<open>C6, as stated, fails: the index stored at the location records the model
  \<open>text-embedding-3-small\<close>, the program configures \<open>all-MiniLM-L6-v2\<close>, and with a store
  that opens what is at the location the load succeeds and the object holds the foreign
  entries.\<close>

theorem load_foreign_model_counterexample:
  "map_option p_embedding_model (map_of foreign_storage ''./chroma_db'') =
     Some ''text-embedding-3-small'' \<and>
   embedding_model_name = ''all-MiniLM-L6-v2'' \<and>
   fst (load_existing_vectorstore example_env foreign_storage example_new) = None \<and>
   map_option vs_entries
     (vectorstore (fst (snd (load_existing_vectorstore example_env foreign_storage example_new)))) =
     Some [(chunk ''growth is strong'' 0, [1, 0, 0])]"
  by code_simp




text \<open>C9, as the code has it: when the store constructor fails during the build,
  \<open>load_and_process_pdf\<close> raises the constructor's error unchanged, the object is left
  as it was (no vector store is assigned), and the storage is left as the constructor
  left it: the program removes nothing.\<close>

theorem failed_build_propagates:
  assumes "PyPDFLoader_load env (pdf_path rag) = Inr pages"
    and "HuggingFaceEmbeddings env ''all-MiniLM-L6-v2'' = Inr embeddings"
    and "Chroma_from_documents env st (split_documents env 1000 200 pages) embeddings
           (persist_directory rag) = (Inl e, st')"
  shows "load_and_process_pdf env st rag = (Some e, rag, st')"
  using assms by (simp add: load_and_process_pdf_def embedding_model_name_def)

theorem failed_build_propagates_witness:
  "PyPDFLoader_load failing_env (pdf_path example_new) = Inr example_pages \<and>
   HuggingFaceEmbeddings failing_env ''all-MiniLM-L6-v2'' = Inr example_embeddings \<and>
   Chroma_from_documents failing_env [] (split_documents failing_env 1000 200 example_pages)
     example_embeddings (persist_directory example_new) =
   (Inl (Raise ''RuntimeError'' ''embedding backend unavailable''),
    [(''./chroma_db'',
      \<lparr>p_embedding_model = ''all-MiniLM-L6-v2'',
       p_entries = [(chunk ''growth is strong'' 0, [2, 1]),
                    (chunk ''inflation is falling in india'' 1, [1, 7])]\<rparr>)]) \<and>
   load_and_process_pdf failing_env [] example_new =
   (Some (Raise ''RuntimeError'' ''embedding backend unavailable''), example_new,
    [(''./chroma_db'',
      \<lparr>p_embedding_model = ''all-MiniLM-L6-v2'',
       p_entries = [(chunk ''growth is strong'' 0, [2, 1]),
                    (chunk ''inflation is falling in india'' 1, [1, 7])]\<rparr>)])"
proof -
  have h: "PyPDFLoader_load failing_env (pdf_path example_new) = Inr example_pages"
    by (simp add: failing_env_def sim_env_def)
  show ?thesis
    by (intro conjI)
      (rule h failing_embeddings_constructed failing_build
         failed_build_propagates [OF h failing_embeddings_constructed failing_build])+
qed

text \<open>C9, as stated, fails: with an embedding provider that fails on the second of
  three batches and a store that writes each batch once it is embedded, the build
  raises the provider's \<open>RuntimeError\<close>, not an \<open>EmbeddingFailure\<close>, and the two chunks
  of the first batch are stored at the location afterwards.\<close>

theorem failed_build_counterexample:
  "\<not> fails_with ''EmbeddingFailure'' (fst (load_and_process_pdf failing_env [] example_new)) \<and>
   map_option (\<lambda>p. length (p_entries p))
     (map_of (snd (snd (load_and_process_pdf failing_env [] example_new))) ''./chroma_db'') = Some 2"
  by code_simp

end
